theory Spec2Isabelle
  imports Main
begin

section \<open>The slides seeder and the read-only slide routes\<close>

text \<open>
  The repository has two programs over one collection of Slide documents: the seeding
  script (\<^verbatim>\<open>seedSlides\<close>) and the router of \<^verbatim>\<open>src/api/slideRoutes.js\<close>.
  Both are glue around library calls (mongoose, fs, JSON, express). Every library call
  is modelled by its outcome: it either gives a value or throws an error object, and
  which of the two happens is a parameter of the model (a field of an environment
  record). The programs themselves are translated statement by statement.

  File names and texts are \<open>string\<close>s. JavaScript strings are sequences of UTF-16 code
  units; the only string operation the code performs is a comparison of code units
  against the ASCII text \<open>.json\<close>, which reads the same on any sequence of units.
\<close>

subsection \<open>Errors, documents, the collection\<close>

text \<open>A JavaScript error object, as far as the code reads it: its \<open>message\<close>.\<close>

datatype error = Error (message: string)

text \<open>The promise of an \<^verbatim>\<open>async\<close> call that returns no value.\<close>

datatype outcome = Resolved | Rejected error

text \<open>
  JSON values, for concrete instances. The programs pass the parsed value through
  untouched, so the development is polymorphic in the type \<open>'j\<close> of parsed values.
\<close>

datatype json =
    JNull
  | JBool bool
  | JNumber int
  | JString string
  | JArray "json list"
  | JObject "(string \<times> json) list"

text \<open>
  Modelled from the spec: the Slide model (\<^verbatim>\<open>models/slideModel.js\<close>) is not
  under \<^verbatim>\<open>src/\<close>. The spec describes a Slide as pass-through JSON with an opaque,
  store-assigned unique identifier created at insertion time: a persisted document
  is the inserted value together with its identifier.
\<close>

record 'j slide =
  slide_id :: nat
  content :: 'j

type_synonym 'j collection = "'j slide list"

text \<open>
  Modelled from the spec: the identifier the store assigns at insertion is one that no
  persisted document carries. The collection is kept in insertion order, the order
  in which the store iterates.
\<close>

definition fresh_id :: "'j collection \<Rightarrow> nat" where
  "fresh_id c = Suc (foldr max (map slide_id c) 0)"

definition unique_ids :: "'j collection \<Rightarrow> bool" where
  "unique_ids c = distinct (map slide_id c)"

subsection \<open>The seeder\<close>

text \<open>
  The environment of one run of the script: the outcome of every library call it makes.
  \<open>slidesDir\<close> is the directory resolved once when the module loads.
  \<open>close_result n\<close> is the outcome of the call of \<^verbatim>\<open>mongoose.connection.close()\<close> that
  is made after \<open>n\<close> earlier calls. \<open>create_fault\<close> is the error with which
  \<^verbatim>\<open>Slide.create(data)\<close> rejects, if it does (the schema or the store rejects the
  document).
\<close>

record 'j seed_env =
  slidesDir :: string
  connect_result :: "error option"
  readdirSync :: "string \<Rightarrow> error + string list"
  readFileSync :: "string \<Rightarrow> error + string"
  JSON_parse :: "string \<Rightarrow> error + 'j"
  create_fault :: "'j \<Rightarrow> error option"
  close_result :: "nat \<Rightarrow> error option"

text \<open>What the script writes to the console, by the method it writes it with.\<close>

datatype channel = ConsoleLog | ConsoleWarn | ConsoleError

datatype msg =
    MongoConnected
  | Found nat
  | NoJsonFiles
  | Inserted string
  | AllInserted
  | SeedingError error

text \<open>
  The state the script works on: the persisted collection, whether the connection of
  the process is open, how often closing it was called, and the console output.
\<close>

record 'j seeder =
  slides :: "'j collection"
  connected :: bool
  close_calls :: nat
  console :: "(channel \<times> msg) list"

definition emit :: "channel \<Rightarrow> msg \<Rightarrow> 'j seeder \<Rightarrow> 'j seeder" where
  "emit ch m s = s\<lparr>console := console s @ [(ch, m)]\<rparr>"

text \<open>\<^verbatim>\<open>String.prototype.endsWith(searchString)\<close>, with the end position at the length.\<close>

definition endsWith :: "'a list \<Rightarrow> 'a list \<Rightarrow> bool" where
  "endsWith s search =
     (let start = int (length s) - int (length search)
      in if start < 0 then False
         else take (length search) (drop (nat start) s) = search)"

text \<open>
  \<^verbatim>\<open>path.join(slidesDir, file)\<close> for a directory entry: entries hold no separator and
  \<open>slidesDir\<close> is already resolved, so joining puts one separator between them.
\<close>

definition path_join :: "string \<Rightarrow> string \<Rightarrow> string" where
  "path_join dir file = dir @ ''/'' @ file"

definition mongoose_connect :: "'j seed_env \<Rightarrow> 'j seeder \<Rightarrow> outcome \<times> 'j seeder" where
  "mongoose_connect env s =
     (case connect_result env of
        Some e \<Rightarrow> (Rejected e, s)
      | None \<Rightarrow> (Resolved, s\<lparr>connected := True\<rparr>))"

definition connection_close :: "'j seed_env \<Rightarrow> 'j seeder \<Rightarrow> outcome \<times> 'j seeder" where
  "connection_close env s =
     (let s' = s\<lparr>close_calls := Suc (close_calls s)\<rparr>
      in case close_result env (close_calls s) of
           Some e \<Rightarrow> (Rejected e, s')
         | None \<Rightarrow> (Resolved, s'\<lparr>connected := False\<rparr>))"

text \<open>
  Modelled from the spec: \<^verbatim>\<open>Slide.create(data)\<close> of the absent Slide model inserts
  \<open>data\<close> as one new document with a store-assigned identifier, or rejects.
\<close>

definition Slide_create :: "'j seed_env \<Rightarrow> 'j \<Rightarrow> 'j seeder \<Rightarrow> outcome \<times> 'j seeder" where
  "Slide_create env data s =
     (case create_fault env data of
        Some e \<Rightarrow> (Rejected e, s)
      | None \<Rightarrow>
          (Resolved,
           s\<lparr>slides := slides s @ [\<lparr>slide_id = fresh_id (slides s), content = data\<rparr>]\<rparr>))"

text \<open>Lines 30 and 31: read the file of a directory entry and parse it.\<close>

definition read_slide :: "'j seed_env \<Rightarrow> string \<Rightarrow> error + 'j" where
  "read_slide env file =
     (case readFileSync env (path_join (slidesDir env) file) of
        Inl e \<Rightarrow> Inl e
      | Inr text \<Rightarrow> JSON_parse env text)"

text \<open>The loop of step 3: one file after the other, stopping at the first throw.\<close>

fun insert_files :: "'j seed_env \<Rightarrow> string list \<Rightarrow> 'j seeder \<Rightarrow> outcome \<times> 'j seeder" where
  "insert_files env [] s = (Resolved, s)"
| "insert_files env (file # files) s =
     (case read_slide env file of
        Inl e \<Rightarrow> (Rejected e, s)
      | Inr data \<Rightarrow>
          (case Slide_create env data s of
             (Rejected e, s') \<Rightarrow> (Rejected e, s')
           | (Resolved, s') \<Rightarrow> insert_files env files (emit ConsoleLog (Inserted file) s')))"

text \<open>The filter of step 2.\<close>

definition json_files :: "string list \<Rightarrow> string list" where
  "json_files entries = filter (\<lambda>f. endsWith f ''.json'') entries"

text \<open>The body of the \<^verbatim>\<open>try\<close> block: how it completes, and the state it leaves.\<close>

definition seed_try :: "'j seed_env \<Rightarrow> 'j seeder \<Rightarrow> outcome \<times> 'j seeder" where
  "seed_try env s =
     (case mongoose_connect env s of
        (Rejected e, s1) \<Rightarrow> (Rejected e, s1)
      | (Resolved, s1) \<Rightarrow>
          (let s2 = emit ConsoleLog MongoConnected s1
           in case readdirSync env (slidesDir env) of
                Inl e \<Rightarrow> (Rejected e, s2)
              | Inr entries \<Rightarrow>
                  (let files = json_files entries;
                       s3 = emit ConsoleLog (Found (length files)) s2
                   in if length files = 0
                      then (Resolved, emit ConsoleWarn NoJsonFiles s3)
                      else (case insert_files env files s3 of
                              (Rejected e, s4) \<Rightarrow> (Rejected e, s4)
                            | (Resolved, s4) \<Rightarrow>
                                connection_close env (emit ConsoleLog AllInserted s4)))))"

text \<open>\<^verbatim>\<open>seedSlides\<close>: the block, and the handler that reports and closes.\<close>

definition seedSlides :: "'j seed_env \<Rightarrow> 'j seeder \<Rightarrow> outcome \<times> 'j seeder" where
  "seedSlides env s =
     (case seed_try env s of
        (Resolved, s') \<Rightarrow> (Resolved, s')
      | (Rejected err, s') \<Rightarrow>
          connection_close env (emit ConsoleError (SeedingError err) s'))"

text \<open>
  The script is run as a process of its own: it starts with no connection and an empty
  console, on whatever the collection holds.
\<close>

definition new_process :: "'j collection \<Rightarrow> 'j seeder" where
  "new_process c = \<lparr>slides = c, connected = False, close_calls = 0, console = []\<rparr>"

definition run_seeder :: "'j seed_env \<Rightarrow> 'j collection \<Rightarrow> outcome \<times> 'j seeder" where
  "run_seeder env c = seedSlides env (new_process c)"

subsection \<open>The query service\<close>

text \<open>
  What the store client does for the two routes: \<open>query_fault\<close> is the error with which
  a query rejects when the store cannot answer, \<open>castObjectId\<close> reads the text of the
  request path as an identifier or throws when the text does not have the store's
  identifier format.
\<close>

record driver =
  query_fault :: "error option"
  castObjectId :: "string \<Rightarrow> error + nat"

definition Slide_find :: "driver \<Rightarrow> 'j collection \<Rightarrow> (error + 'j collection) \<times> 'j collection" where
  "Slide_find drv c =
     (case query_fault drv of
        Some e \<Rightarrow> (Inl e, c)
      | None \<Rightarrow> (Inr c, c))"

definition Slide_findById ::
  "driver \<Rightarrow> string \<Rightarrow> 'j collection \<Rightarrow> (error + 'j slide option) \<times> 'j collection" where
  "Slide_findById drv ident c =
     (case castObjectId drv ident of
        Inl e \<Rightarrow> (Inl e, c)
      | Inr oid \<Rightarrow>
          (case query_fault drv of
             Some e \<Rightarrow> (Inl e, c)
           | None \<Rightarrow> (Inr (find (\<lambda>d. slide_id d = oid) c), c)))"

datatype 'j body =
    SlideList "'j collection"
  | SlideDoc "'j slide"
  | MessageBody string
  | ErrorBody string

record 'j response =
  status :: nat
  body :: "'j body"

text \<open>\<^verbatim>\<open>router.get("/")\<close>: the response, and the collection after the request.\<close>

definition get_slides :: "driver \<Rightarrow> 'j collection \<Rightarrow> 'j response \<times> 'j collection" where
  "get_slides drv c =
     (case Slide_find drv c of
        (Inr found, c') \<Rightarrow> (\<lparr>status = 200, body = SlideList found\<rparr>, c')
      | (Inl err, c') \<Rightarrow> (\<lparr>status = 500, body = ErrorBody (message err)\<rparr>, c'))"

text \<open>\<^verbatim>\<open>router.get("/:id")\<close>.\<close>

definition get_slide_by_id ::
  "driver \<Rightarrow> string \<Rightarrow> 'j collection \<Rightarrow> 'j response \<times> 'j collection" where
  "get_slide_by_id drv ident c =
     (case Slide_findById drv ident c of
        (Inr None, c') \<Rightarrow> (\<lparr>status = 404, body = MessageBody ''Slide not found''\<rparr>, c')
      | (Inr (Some found), c') \<Rightarrow> (\<lparr>status = 200, body = SlideDoc found\<rparr>, c')
      | (Inl err, c') \<Rightarrow> (\<lparr>status = 500, body = ErrorBody (message err)\<rparr>, c'))"

subsection \<open>A concrete instance\<close>

text \<open>
  An identifier format for concrete runs: the text of 24 hexadecimal digits, read as a
  number. The routes are verified for every format (every \<open>castObjectId\<close>); this one
  serves where a property is evaluated on an example.
\<close>

definition hex_digit :: "char \<Rightarrow> nat option" where
  "hex_digit ch =
     (let n = (of_char ch :: nat)
      in if 48 \<le> n \<and> n \<le> 57 then Some (n - 48)
         else if 97 \<le> n \<and> n \<le> 102 then Some (n - 87)
         else if 65 \<le> n \<and> n \<le> 70 then Some (n - 55)
         else None)"

fun hex_value :: "nat \<Rightarrow> string \<Rightarrow> nat option" where
  "hex_value acc [] = Some acc"
| "hex_value acc (ch # rest) =
     (case hex_digit ch of
        None \<Rightarrow> None
      | Some v \<Rightarrow> hex_value (16 * acc + v) rest)"

definition hex24 :: "string \<Rightarrow> error + nat" where
  "hex24 ident =
     (if length ident = 24
      then (case hex_value 0 ident of
              Some n \<Rightarrow> Inr n
            | None \<Rightarrow> Inl (Error ''Cast to ObjectId failed''))
      else Inl (Error ''Cast to ObjectId failed''))"

definition demo_driver :: driver where
  "demo_driver = \<lparr>query_fault = None, castObjectId = hex24\<rparr>"

definition intro_slide :: json where
  "intro_slide = JObject [(''title'', JString ''Intro'')]"

definition agenda_slide :: json where
  "agenda_slide = JObject [(''title'', JString ''Agenda'')]"

definition demo_collection :: "json collection" where
  "demo_collection =
     [\<lparr>slide_id = 1, content = intro_slide\<rparr>, \<lparr>slide_id = 2, content = agenda_slide\<rparr>]"

text \<open>
  A slides directory for concrete runs: two files with one JSON object each, and one
  file whose text breaks off. \<open>demo_parse\<close> is \<^verbatim>\<open>JSON.parse\<close> on these three texts.
\<close>

definition quoted :: "string \<Rightarrow> string" where
  "quoted s = CHR 0x22 # s @ [CHR 0x22]"

definition intro_text :: string where
  "intro_text = ''{'' @ quoted ''title'' @ '':'' @ quoted ''Intro'' @ ''}''"

definition agenda_text :: string where
  "agenda_text = ''{'' @ quoted ''title'' @ '':'' @ quoted ''Agenda'' @ ''}''"

definition demo_disk :: "string \<Rightarrow> error + string" where
  "demo_disk path =
     (if path = ''/srv/slides/intro.json'' then Inr intro_text
      else if path = ''/srv/slides/agenda.json'' then Inr agenda_text
      else if path = ''/srv/slides/broken.json'' then Inr ''{''
      else Inl (Error ''ENOENT: no such file or directory''))"

definition demo_parse :: "string \<Rightarrow> error + json" where
  "demo_parse text =
     (if text = intro_text then Inr intro_slide
      else if text = agenda_text then Inr agenda_slide
      else Inl (Error ''Unexpected end of JSON input''))"

definition demo_env :: "string list \<Rightarrow> json seed_env" where
  "demo_env entries =
     \<lparr>slidesDir = ''/srv/slides'',
      connect_result = None,
      readdirSync = (\<lambda>dir. if dir = ''/srv/slides'' then Inr entries
                            else Inl (Error ''ENOENT: no such file or directory'')),
      readFileSync = demo_disk,
      JSON_parse = demo_parse,
      create_fault = (\<lambda>data. None),
      close_result = (\<lambda>n. None)\<rparr>"

section \<open>Properties\<close>

subsection \<open>Suffix test and fresh identifiers\<close>

lemma endsWith_iff: "endsWith s search \<longleftrightarrow> (\<exists>stem. s = stem @ search)"
proof
  assume "endsWith s search"
  then have le: "length search \<le> length s"
    and eq: "drop (length s - length search) s = search"
    by (auto simp: endsWith_def Let_def nat_diff_distrib split: if_splits)
  have "s = take (length s - length search) s @ drop (length s - length search) s"
    by simp
  with eq show "\<exists>stem. s = stem @ search" by metis
next
  assume "\<exists>stem. s = stem @ search"
  then show "endsWith s search"
    by (auto simp: endsWith_def Let_def)
qed

lemma foldr_max_ge: "x \<in> set xs \<Longrightarrow> x \<le> foldr max xs (0::nat)"
  by (induction xs) (auto simp: max_def)

lemma fresh_id_gt: "d \<in> set c \<Longrightarrow> slide_id d < fresh_id c"
  unfolding fresh_id_def using foldr_max_ge [of "slide_id d" "map slide_id c"] by auto

subsection \<open>The insertion loop\<close>

text \<open>The loop over a list of two parts runs the second part only if the first went through.\<close>

lemma insert_files_append:
  "insert_files env (xs @ ys) s =
     (case insert_files env xs s of
        (Resolved, s1) \<Rightarrow> insert_files env ys s1
      | (Rejected e, s1) \<Rightarrow> (Rejected e, s1))"
  by (induction xs arbitrary: s)
     (auto simp: Slide_create_def split: sum.splits option.splits outcome.splits prod.splits)

lemma insert_files_frame:
  "insert_files env fs s = (r, s') \<Longrightarrow>
     connected s' = connected s \<and> close_calls s' = close_calls s"
  by (induction fs arbitrary: s)
     (auto simp: Slide_create_def emit_def split: sum.splits option.splits)

text \<open>
  A loop that went through has appended one document per file, in order, each with the
  parsed value of its file, and has logged each file.
\<close>

lemma insert_files_resolved:
  "insert_files env fs s = (Resolved, s') \<Longrightarrow>
     (\<exists>new. slides s' = slides s @ new \<and> map (Inr \<circ> content) new = map (read_slide env) fs) \<and>
     console s' = console s @ map (\<lambda>f. (ConsoleLog, Inserted f)) fs"
proof (induction fs arbitrary: s)
  case Nil
  then show ?case by simp
next
  case (Cons f fs)
  from Cons.prems obtain data where rd: "read_slide env f = Inr data"
    and cf: "create_fault env data = None"
    and rest: "insert_files env fs
        (emit ConsoleLog (Inserted f)
          (s\<lparr>slides := slides s @ [\<lparr>slide_id = fresh_id (slides s), content = data\<rparr>]\<rparr>)) = (Resolved, s')"
    by (auto simp: Slide_create_def split: sum.splits option.splits)
  from Cons.IH [OF rest] show ?case
    by (auto simp: emit_def rd)
qed

lemma insert_files_all_ok:
  "\<forall>f \<in> set fs. \<exists>data. read_slide env f = Inr data \<and> create_fault env data = None \<Longrightarrow>
     fst (insert_files env fs s) = Resolved"
  by (induction fs arbitrary: s) (auto simp: Slide_create_def)

text \<open>
  However the loop ends, what it appended carries identifiers that are distinct and
  larger than every identifier the collection held.
\<close>

lemma insert_files_ids:
  "insert_files env fs s = (r, s') \<Longrightarrow>
     \<exists>new. slides s' = slides s @ new \<and> distinct (map slide_id new) \<and>
       (\<forall>d \<in> set new. \<forall>d0 \<in> set (slides s). slide_id d0 < slide_id d)"
proof (induction fs arbitrary: s)
  case Nil
  then show ?case by simp
next
  case (Cons f fs)
  show ?case
  proof (cases "read_slide env f")
    case (Inl e)
    with Cons.prems show ?thesis by simp
  next
    case (Inr data)
    show ?thesis
    proof (cases "create_fault env data")
      case (Some e)
      with Inr Cons.prems show ?thesis by (simp add: Slide_create_def)
    next
      case None
      let ?d = "\<lparr>slide_id = fresh_id (slides s), content = data\<rparr>"
      let ?s1 = "emit ConsoleLog (Inserted f) (s\<lparr>slides := slides s @ [?d]\<rparr>)"
      from Cons.prems Inr None have "insert_files env fs ?s1 = (r, s')"
        by (simp add: Slide_create_def)
      from Cons.IH [OF this] obtain new where
        n1: "slides s' = slides ?s1 @ new" and n2: "distinct (map slide_id new)"
        and n3: "\<forall>d \<in> set new. \<forall>d0 \<in> set (slides ?s1). slide_id d0 < slide_id d"
        by blast
      have s1: "slides ?s1 = slides s @ [?d]" by (simp add: emit_def)
      have "slides s' = slides s @ (?d # new)" using n1 s1 by simp
      moreover have "distinct (map slide_id (?d # new))"
        using n2 n3 s1 by fastforce
      moreover have "\<forall>d \<in> set (?d # new). \<forall>d0 \<in> set (slides s). slide_id d0 < slide_id d"
        using n3 s1 fresh_id_gt [of _ "slides s"] by auto
      ultimately show ?thesis by blast
    qed
  qed
qed

text \<open>
  Whether the loop goes through, and which values it appends, depends on the
  environment and the files only, not on the state it starts in.
\<close>

lemma insert_files_uniform:
  "\<exists>r js. \<forall>s. fst (insert_files env fs s) = r \<and>
      (\<exists>new. slides (snd (insert_files env fs s)) = slides s @ new \<and> map content new = js)"
proof (induction fs)
  case Nil
  then show ?case by simp
next
  case (Cons f fs)
  then obtain r js where IH: "\<And>s. fst (insert_files env fs s) = r \<and>
      (\<exists>new. slides (snd (insert_files env fs s)) = slides s @ new \<and> map content new = js)"
    by blast
  show ?case
  proof (cases "read_slide env f")
    case (Inl e)
    then show ?thesis by auto
  next
    case (Inr data)
    show ?thesis
    proof (cases "create_fault env data")
      case (Some e)
      with Inr show ?thesis by (auto simp: Slide_create_def)
    next
      case None
      have "\<forall>s. fst (insert_files env (f # fs) s) = r \<and>
         (\<exists>new. slides (snd (insert_files env (f # fs) s)) = slides s @ new \<and>
            map content new = data # js)"
      proof
        fix s :: "'a seeder"
        let ?d = "\<lparr>slide_id = fresh_id (slides s), content = data\<rparr>"
        let ?s1 = "emit ConsoleLog (Inserted f) (s\<lparr>slides := slides s @ [?d]\<rparr>)"
        have step: "insert_files env (f # fs) s = insert_files env fs ?s1"
          using Inr None by (simp add: Slide_create_def)
        from IH [of ?s1] obtain new where
          "fst (insert_files env fs ?s1) = r"
          "slides (snd (insert_files env fs ?s1)) = slides ?s1 @ new" "map content new = js"
          by blast
        then show "fst (insert_files env (f # fs) s) = r \<and>
         (\<exists>new. slides (snd (insert_files env (f # fs) s)) = slides s @ new \<and>
            map content new = data # js)"
          unfolding step by (auto simp: emit_def intro!: exI [of _ "?d # new"])
      qed
      then show ?thesis by blast
    qed
  qed
qed

subsection \<open>The block and the handler\<close>

lemma connection_close_frame:
  "slides (snd (connection_close env s)) = slides s \<and>
   console (snd (connection_close env s)) = console s \<and>
   close_calls (snd (connection_close env s)) = Suc (close_calls s)"
  by (simp add: connection_close_def Let_def split: option.splits)

lemma connection_close_ok:
  "close_result env (close_calls s) = None \<Longrightarrow>
     fst (connection_close env s) = Resolved \<and> \<not> connected (snd (connection_close env s))"
  by (simp add: connection_close_def Let_def)

lemma connection_close_rejected:
  "fst (connection_close env s) = Rejected e \<Longrightarrow> close_result env (close_calls s) = Some e"
  by (simp add: connection_close_def Let_def split: option.splits)

lemma seed_try_connect_fails:
  "connect_result env = Some e \<Longrightarrow> seed_try env s = (Rejected e, s)"
  by (simp add: seed_try_def mongoose_connect_def)

lemma seed_try_listing:
  assumes "connect_result env = None" and "readdirSync env (slidesDir env) = Inr entries"
  shows "seed_try env s =
     (let s3 = emit ConsoleLog (Found (length (json_files entries)))
                 (emit ConsoleLog MongoConnected (s\<lparr>connected := True\<rparr>))
      in if json_files entries = [] then (Resolved, emit ConsoleWarn NoJsonFiles s3)
         else (case insert_files env (json_files entries) s3 of
                 (Rejected e, s4) \<Rightarrow> (Rejected e, s4)
               | (Resolved, s4) \<Rightarrow> connection_close env (emit ConsoleLog AllInserted s4)))"
  using assms by (simp add: seed_try_def mongoose_connect_def Let_def)

lemma seed_try_resolved:
  assumes "seed_try env s = (Resolved, s')"
  shows "connect_result env = None \<and>
    (\<exists>entries. readdirSync env (slidesDir env) = Inr entries \<and>
       (\<exists>new. slides s' = slides s @ new \<and>
          map (Inr \<circ> content) new = map (read_slide env) (json_files entries)))"
proof -
  from assms have c: "connect_result env = None"
    by (auto simp: seed_try_def mongoose_connect_def split: option.splits)
  from assms c obtain entries where d: "readdirSync env (slidesDir env) = Inr entries"
    by (auto simp: seed_try_def mongoose_connect_def Let_def split: sum.splits)
  let ?s3 = "emit ConsoleLog (Found (length (json_files entries)))
                 (emit ConsoleLog MongoConnected (s\<lparr>connected := True\<rparr>))"
  have s3: "slides ?s3 = slides s" by (simp add: emit_def)
  have "\<exists>new. slides s' = slides s @ new \<and>
          map (Inr \<circ> content) new = map (read_slide env) (json_files entries)"
  proof (cases "json_files entries = []")
    case True
    with assms seed_try_listing [OF c d, of s] show ?thesis
      by (auto simp: emit_def)
  next
    case False
    with assms seed_try_listing [OF c d, of s] obtain s4 where
      ins: "insert_files env (json_files entries) ?s3 = (Resolved, s4)"
      and cl: "connection_close env (emit ConsoleLog AllInserted s4) = (Resolved, s')"
      by (auto simp: Let_def split: prod.splits outcome.splits)
    from cl connection_close_frame [of env "emit ConsoleLog AllInserted s4"]
    have "slides s' = slides s4" by (simp add: emit_def)
    with insert_files_resolved [OF ins] s3 show ?thesis by auto
  qed
  with c d show ?thesis by blast
qed

lemma seedSlides_rejected_try:
  assumes "seed_try env s = (Rejected e, s1)"
  shows "seedSlides env s = connection_close env (emit ConsoleError (SeedingError e) s1)"
  using assms by (simp add: seedSlides_def)

lemma seedSlides_resolved_try:
  assumes "seed_try env s = (Resolved, s1)"
  shows "seedSlides env s = (Resolved, s1)"
  using assms by (simp add: seedSlides_def)

lemma outcome_pair_cases:
  obtains s1 where "p = (Resolved, s1)" | e s1 where "p = (Rejected e, s1)"
  by (cases p; cases "fst p") auto

lemma seedSlides_slides_eq: "slides (snd (seedSlides env s)) = slides (snd (seed_try env s))"
proof (cases "seed_try env s" rule: outcome_pair_cases)
  case (1 s1)
  then show ?thesis by (simp add: seedSlides_resolved_try)
next
  case (2 e s1)
  with connection_close_frame [of env "emit ConsoleError (SeedingError e) s1"]
  show ?thesis by (simp add: seedSlides_rejected_try emit_def)
qed

lemma seed_try_slides:
  "\<exists>fs. \<forall>s. \<exists>t. slides t = slides s \<and>
      slides (snd (seed_try env s)) = slides (snd (insert_files env fs t))"
proof (cases "connect_result env")
  case (Some e)
  then have "\<forall>s. slides s = slides s \<and>
      slides (snd (seed_try env s)) = slides (snd (insert_files env [] s))"
    by (simp add: seed_try_connect_fails)
  then show ?thesis by blast
next
  case None
  show ?thesis
  proof (cases "readdirSync env (slidesDir env)")
    case (Inl e)
    with None have "\<forall>s. slides s = slides s \<and>
        slides (snd (seed_try env s)) = slides (snd (insert_files env [] s))"
      by (simp add: seed_try_def mongoose_connect_def emit_def)
    then show ?thesis by blast
  next
    case (Inr entries)
    have "\<forall>s. \<exists>t. slides t = slides s \<and>
        slides (snd (seed_try env s)) = slides (snd (insert_files env (json_files entries) t))"
    proof
      fix s :: "'a seeder"
      let ?s3 = "emit ConsoleLog (Found (length (json_files entries)))
                 (emit ConsoleLog MongoConnected (s\<lparr>connected := True\<rparr>))"
      have a: "slides ?s3 = slides s" by (simp add: emit_def)
      have b: "slides (snd (seed_try env s)) =
            slides (snd (insert_files env (json_files entries) ?s3))"
      proof (cases "json_files entries = []")
        case True
        then show ?thesis
          using seed_try_listing [OF None Inr, of s] by (simp add: emit_def)
      next
        case False
        show ?thesis
        proof (cases "insert_files env (json_files entries) ?s3" rule: outcome_pair_cases)
          case (1 s4)
          with False connection_close_frame [of env "emit ConsoleLog AllInserted s4"]
          show ?thesis
            using seed_try_listing [OF None Inr, of s] by (simp add: emit_def)
        next
          case (2 e s4)
          with False show ?thesis
            using seed_try_listing [OF None Inr, of s] by simp
        qed
      qed
      from a b show "\<exists>t. slides t = slides s \<and>
        slides (snd (seed_try env s)) = slides (snd (insert_files env (json_files entries) t))"
        by blast
    qed
    then show ?thesis by blast
  qed
qed

lemma seedSlides_adds:
  "\<exists>js. \<forall>s. \<exists>new. slides (snd (seedSlides env s)) = slides s @ new \<and>
      map content new = js \<and> distinct (map slide_id new) \<and>
      (\<forall>d \<in> set new. \<forall>d0 \<in> set (slides s). slide_id d0 < slide_id d)"
proof -
  obtain fs where fs: "\<And>s. \<exists>t. slides t = slides s \<and>
      slides (snd (seed_try env s)) = slides (snd (insert_files env fs t))"
    using seed_try_slides [of env] by blast
  obtain r js where js: "\<And>t. \<exists>new. slides (snd (insert_files env fs t)) = slides t @ new \<and>
      map content new = js"
    using insert_files_uniform [of env fs] by blast
  have "\<forall>s. \<exists>new. slides (snd (seedSlides env s)) = slides s @ new \<and>
      map content new = js \<and> distinct (map slide_id new) \<and>
      (\<forall>d \<in> set new. \<forall>d0 \<in> set (slides s). slide_id d0 < slide_id d)"
  proof
    fix s :: "'a seeder"
    from fs [of s] obtain t where t: "slides t = slides s"
      "slides (snd (seed_try env s)) = slides (snd (insert_files env fs t))" by blast
    from js [of t] obtain new where n: "slides (snd (insert_files env fs t)) = slides t @ new"
      "map content new = js" by blast
    have "insert_files env fs t = (fst (insert_files env fs t), snd (insert_files env fs t))"
      by simp
    from insert_files_ids [OF this] obtain new' where
      n': "slides (snd (insert_files env fs t)) = slides t @ new'"
      "distinct (map slide_id new')"
      "\<forall>d \<in> set new'. \<forall>d0 \<in> set (slides t). slide_id d0 < slide_id d" by blast
    from n n' have "new' = new" by simp
    with n n' t show "\<exists>new. slides (snd (seedSlides env s)) = slides s @ new \<and>
      map content new = js \<and> distinct (map slide_id new) \<and>
      (\<forall>d \<in> set new. \<forall>d0 \<in> set (slides s). slide_id d0 < slide_id d)"
      by (auto simp: seedSlides_slides_eq)
  qed
  then show ?thesis by blast
qed

text \<open>A run keeps the identifiers of the collection unique.\<close>

lemma seedSlides_keeps_unique_ids:
  "unique_ids (slides s) \<Longrightarrow> unique_ids (slides (snd (seedSlides env s)))"
proof -
  assume u: "unique_ids (slides s)"
  from seedSlides_adds [of env] obtain new where
    n: "slides (snd (seedSlides env s)) = slides s @ new" "distinct (map slide_id new)"
      "\<forall>d \<in> set new. \<forall>d0 \<in> set (slides s). slide_id d0 < slide_id d"
    by blast
  from n(3) have "set (map slide_id (slides s)) \<inter> set (map slide_id new) = {}"
    by fastforce
  with u n(1,2) show ?thesis
    by (simp add: unique_ids_def)
qed

lemma seedSlides_all_ok:
  assumes connect: "connect_result env = None"
    and dir: "readdirSync env (slidesDir env) = Inr entries"
    and ok: "\<forall>f \<in> set (json_files entries).
               \<exists>data. read_slide env f = Inr data \<and> create_fault env data = None"
  shows "\<exists>new. slides (snd (seedSlides env s)) = slides s @ new \<and>
           map (Inr \<circ> content) new = map (read_slide env) (json_files entries)"
proof -
  let ?s3 = "emit ConsoleLog (Found (length (json_files entries)))
                 (emit ConsoleLog MongoConnected (s\<lparr>connected := True\<rparr>))"
  obtain s4 where ins: "insert_files env (json_files entries) ?s3 = (Resolved, s4)"
    using insert_files_all_ok [OF ok, of ?s3]
    by (cases "insert_files env (json_files entries) ?s3") auto
  have "slides (snd (seed_try env s)) = slides s4"
  proof (cases "json_files entries = []")
    case True
    with ins show ?thesis
      using seed_try_listing [OF connect dir, of s] by (simp add: emit_def)
  next
    case False
    with ins connection_close_frame [of env "emit ConsoleLog AllInserted s4"] show ?thesis
      using seed_try_listing [OF connect dir, of s] by (simp add: emit_def)
  qed
  with insert_files_resolved [OF ins] show ?thesis
    by (auto simp: seedSlides_slides_eq emit_def)
qed

lemma seedSlides_console_all_ok:
  assumes connect: "connect_result env = None"
    and dir: "readdirSync env (slidesDir env) = Inr entries"
    and ok: "\<forall>f \<in> set (json_files entries).
               \<exists>data. read_slide env f = Inr data \<and> create_fault env data = None"
  shows "\<exists>rest. console (snd (seedSlides env s)) =
           console s @
           [(ConsoleLog, MongoConnected), (ConsoleLog, Found (length (json_files entries)))] @
           map (\<lambda>f. (ConsoleLog, Inserted f)) (json_files entries) @ rest \<and>
           (\<forall>f. (ConsoleLog, Inserted f) \<notin> set rest)"
proof -
  let ?s3 = "emit ConsoleLog (Found (length (json_files entries)))
                 (emit ConsoleLog MongoConnected (s\<lparr>connected := True\<rparr>))"
  let ?head = "console s @
           [(ConsoleLog, MongoConnected), (ConsoleLog, Found (length (json_files entries)))] @
           map (\<lambda>f. (ConsoleLog, Inserted f)) (json_files entries)"
  obtain s4 where ins: "insert_files env (json_files entries) ?s3 = (Resolved, s4)"
    using insert_files_all_ok [OF ok, of ?s3]
    by (cases "insert_files env (json_files entries) ?s3") auto
  from insert_files_resolved [OF ins] have c4: "console s4 = ?head"
    by (simp add: emit_def)
  show ?thesis
  proof (cases "json_files entries = []")
    case True
    then have "console (snd (seedSlides env s)) = ?head @ [(ConsoleWarn, NoJsonFiles)]"
      using seed_try_listing [OF connect dir, of s] by (simp add: seedSlides_def emit_def)
    then show ?thesis by auto
  next
    case False
    let ?s5 = "emit ConsoleLog AllInserted s4"
    from False ins have blk: "seed_try env s = connection_close env ?s5"
      using seed_try_listing [OF connect dir, of s] by simp
    show ?thesis
    proof (cases "connection_close env ?s5" rule: outcome_pair_cases)
      case (1 s6)
      with blk have "seedSlides env s = (Resolved, s6)" by (simp add: seedSlides_def)
      moreover from 1 connection_close_frame [of env ?s5] have "console s6 = console ?s5"
        by simp
      ultimately have "console (snd (seedSlides env s)) = ?head @ [(ConsoleLog, AllInserted)]"
        using c4 by (simp add: emit_def)
      then show ?thesis by auto
    next
      case (2 e s6)
      let ?h = "emit ConsoleError (SeedingError e) s6"
      from 2 blk have "seedSlides env s = connection_close env ?h"
        by (simp add: seedSlides_def)
      moreover from 2 connection_close_frame [of env ?s5] have "console s6 = console ?s5"
        by simp
      ultimately have "console (snd (seedSlides env s)) =
          ?head @ [(ConsoleLog, AllInserted), (ConsoleError, SeedingError e)]"
        using c4 connection_close_frame [of env ?h] by (simp add: emit_def)
      then show ?thesis by auto
    qed
  qed
qed

lemma find_unique:
  "distinct (map slide_id c) \<Longrightarrow> d \<in> set c \<Longrightarrow> find (\<lambda>x. slide_id x = slide_id d) c = Some d"
  by (induction c) (auto simp: rev_image_eqI)

subsection \<open>Evaluation of the concrete instance\<close>

lemmas demo_defs = demo_env_def demo_disk_def demo_parse_def intro_text_def agenda_text_def
  quoted_def intro_slide_def agenda_slide_def demo_collection_def demo_driver_def

lemmas seeder_defs = run_seeder_def new_process_def seedSlides_def seed_try_def mongoose_connect_def
  connection_close_def Slide_create_def read_slide_def path_join_def json_files_def
  endsWith_def emit_def fresh_id_def Let_def

lemmas route_defs = get_slides_def get_slide_by_id_def Slide_find_def Slide_findById_def
  hex24_def hex_digit_def

lemma demo_read_intro:
  "read_slide (demo_env es) ''intro.json'' = Inr intro_slide"
  by (simp add: read_slide_def path_join_def demo_defs)

lemma demo_read_agenda:
  "read_slide (demo_env es) ''agenda.json'' = Inr agenda_slide"
  by (simp add: read_slide_def path_join_def demo_defs)

lemma demo_read_broken:
  "read_slide (demo_env es) ''broken.json'' = Inl (Error ''Unexpected end of JSON input'')"
  by (simp add: read_slide_def path_join_def demo_defs)

lemma demo_run_two:
  "run_seeder (demo_env [''intro.json'', ''notes.txt'', ''agenda.json'']) [] =
     (Resolved,
      \<lparr>slides = [\<lparr>slide_id = 1, content = intro_slide\<rparr>,
                 \<lparr>slide_id = 2, content = agenda_slide\<rparr>],
       connected = False, close_calls = 1,
       console = [(ConsoleLog, MongoConnected), (ConsoleLog, Found 2),
                  (ConsoleLog, Inserted ''intro.json''), (ConsoleLog, Inserted ''agenda.json''),
                  (ConsoleLog, AllInserted)]\<rparr>)"
  by (simp add: seeder_defs demo_defs)

section \<open>The claims\<close>

subsection \<open>C1: the list after a seeding run\<close>

text \<open>
  Claim C1, as amended. When a run of the seeder completes without error (it resolves
  and reports no error) and the store answers the query, the List route responds with
  status 200 and the documents that were in the collection before the run, followed
  by exactly one new document per directory entry whose name ends in \<open>.json\<close>, in
  directory order, each carrying the parsed content of its file next to the
  identifier the store assigned. On a collection that was empty before the run
  (\<open>c0 = []\<close>) these are exactly one entry per such file.
\<close>

theorem list_after_seeding:
  assumes run: "run_seeder env c0 = (Resolved, s')"
    and quiet: "\<forall>e. (ConsoleError, SeedingError e) \<notin> set (console s')"
    and dir: "readdirSync env (slidesDir env) = Inr entries"
    and up: "query_fault drv = None"
  shows "\<exists>new. fst (get_slides drv (slides s')) = \<lparr>status = 200, body = SlideList (c0 @ new)\<rparr> \<and>
           length new = length (json_files entries) \<and>
           map (Inr \<circ> content) new = map (read_slide env) (json_files entries)"
proof -
  let ?s0 = "\<lparr>slides = c0, connected = False, close_calls = 0, console = []\<rparr>"
  from run have run': "seedSlides env ?s0 = (Resolved, s')"
    by (simp add: run_seeder_def new_process_def)
  have blk: "seed_try env ?s0 = (Resolved, s')"
  proof (cases "seed_try env ?s0" rule: outcome_pair_cases)
    case (1 s1)
    with run' show ?thesis by (simp add: seedSlides_resolved_try)
  next
    case (2 e s1)
    let ?h = "emit ConsoleError (SeedingError e) s1"
    from run' 2 have "s' = snd (connection_close env ?h)"
      by (simp add: seedSlides_rejected_try)
    with connection_close_frame [of env ?h]
    have "(ConsoleError, SeedingError e) \<in> set (console s')" by (simp add: emit_def)
    with quiet show ?thesis by blast
  qed
  from seed_try_resolved [OF blk] dir obtain new where
    new: "slides s' = c0 @ new"
      "map (Inr \<circ> content) new = map (read_slide env) (json_files entries)"
    by auto
  from new(2) have "length new = length (json_files entries)"
    by (metis length_map)
  with new up show ?thesis
    by (auto simp: get_slides_def Slide_find_def)
qed

text \<open>
  Claim C1, witness: a directory with two slide files and one text file, seeded into
  an empty collection.
\<close>

theorem list_after_seeding_witness:
  "fst (run_seeder (demo_env [''intro.json'', ''notes.txt'', ''agenda.json'']) []) = Resolved \<and>
   fst (get_slides demo_driver
          (slides (snd (run_seeder (demo_env [''intro.json'', ''notes.txt'', ''agenda.json'']) [])))) =
     \<lparr>status = 200,
      body = SlideList [\<lparr>slide_id = 1, content = intro_slide\<rparr>,
                        \<lparr>slide_id = 2, content = agenda_slide\<rparr>]\<rparr> \<and>
   map (read_slide (demo_env [''intro.json'', ''notes.txt'', ''agenda.json'']))
     (json_files [''intro.json'', ''notes.txt'', ''agenda.json'']) =
     [Inr intro_slide, Inr agenda_slide]"
proof -
  let ?E = "demo_env [''intro.json'', ''notes.txt'', ''agenda.json'']"
  have run: "run_seeder ?E [] = (Resolved, snd (run_seeder ?E []))"
    by (simp add: demo_run_two)
  have quiet: "\<forall>e. (ConsoleError, SeedingError e) \<notin> set (console (snd (run_seeder ?E [])))"
    by (simp add: demo_run_two)
  have dir: "readdirSync ?E (slidesDir ?E) = Inr [''intro.json'', ''notes.txt'', ''agenda.json'']"
    by (simp add: demo_env_def)
  have up: "query_fault demo_driver = None"
    by (simp add: demo_driver_def)
  have files: "json_files [''intro.json'', ''notes.txt'', ''agenda.json''] =
      [''intro.json'', ''agenda.json'']"
    by (simp add: json_files_def endsWith_def)
  show ?thesis
    using list_after_seeding [OF run quiet dir up]
    by (simp add: demo_run_two files demo_read_intro demo_read_agenda route_defs demo_driver_def)
qed

text \<open>
  Claim C1, counterexample to the claim without the amendment: the second run over a
  directory with the single file \<open>intro.json\<close> completes without error, and the List
  route then returns two entries for the one file.
\<close>

theorem list_after_second_run_counterexample:
  "fst (run_seeder (demo_env [''intro.json''])
          (slides (snd (run_seeder (demo_env [''intro.json'']) [])))) = Resolved \<and>
   console (snd (run_seeder (demo_env [''intro.json''])
          (slides (snd (run_seeder (demo_env [''intro.json'']) []))))) =
     [(ConsoleLog, MongoConnected), (ConsoleLog, Found 1),
      (ConsoleLog, Inserted ''intro.json''), (ConsoleLog, AllInserted)] \<and>
   fst (get_slides demo_driver
          (slides (snd (run_seeder (demo_env [''intro.json''])
             (slides (snd (run_seeder (demo_env [''intro.json'']) []))))))) =
     \<lparr>status = 200,
      body = SlideList [\<lparr>slide_id = 1, content = intro_slide\<rparr>,
                        \<lparr>slide_id = 2, content = intro_slide\<rparr>]\<rparr> \<and>
   json_files [''intro.json''] = [''intro.json''] \<and>
   length (slides (snd (run_seeder (demo_env [''intro.json''])
             (slides (snd (run_seeder (demo_env [''intro.json'']) [])))))) \<noteq>
     length (json_files [''intro.json''])"
  by (simp add: seeder_defs demo_defs route_defs)

subsection \<open>C2: a run stops at the first failing file\<close>

text \<open>
  Claim C2, as amended. Let the directory listing have the qualifying files \<open>pre @ file # post\<close>,
  let every file of \<open>pre\<close> be read, parsed and inserted without error, and let
  processing \<open>file\<close> throw \<open>e\<close> (reading or parsing it fails, or the insertion of its
  value is rejected). Then, whatever \<open>post\<close> holds: the collection after the run is
  the collection before it followed by one document per file of \<open>pre\<close> (nothing is
  rolled back, nothing of \<open>file\<close> or \<open>post\<close> is persisted); the console shows the
  connection message, the count, one insertion message per file of \<open>pre\<close> and then
  the report of \<open>e\<close>, with nothing after it; closing the connection is called once;
  and, provided that call does not fail, the connection is closed and the run resolves.
\<close>

theorem seeder_aborts_at_first_failure:
  assumes connect: "connect_result env = None"
    and dir: "readdirSync env (slidesDir env) = Inr entries"
    and files: "json_files entries = pre @ file # post"
    and pre_ok: "\<forall>f \<in> set pre. \<exists>data. read_slide env f = Inr data \<and> create_fault env data = None"
    and fails: "read_slide env file = Inl e \<or>
                (\<exists>data. read_slide env file = Inr data \<and> create_fault env data = Some e)"
  shows "(\<exists>new. slides (snd (seedSlides env s)) = slides s @ new \<and>
            map (Inr \<circ> content) new = map (read_slide env) pre) \<and>
         console (snd (seedSlides env s)) = console s @
           [(ConsoleLog, MongoConnected), (ConsoleLog, Found (length pre + 1 + length post))] @
           map (\<lambda>f. (ConsoleLog, Inserted f)) pre @
           [(ConsoleError, SeedingError e)] \<and>
         close_calls (snd (seedSlides env s)) = Suc (close_calls s) \<and>
         (close_result env (close_calls s) = None \<longrightarrow>
            fst (seedSlides env s) = Resolved \<and> \<not> connected (snd (seedSlides env s)))"
proof -
  let ?s3 = "emit ConsoleLog (Found (length (json_files entries)))
                 (emit ConsoleLog MongoConnected (s\<lparr>connected := True\<rparr>))"
  obtain sp where pre: "insert_files env pre ?s3 = (Resolved, sp)"
    using insert_files_all_ok [OF pre_ok, of ?s3] by (cases "insert_files env pre ?s3") auto
  have stop: "insert_files env (file # post) sp = (Rejected e, sp)"
    using fails by (auto simp: Slide_create_def)
  have "insert_files env (pre @ file # post) ?s3 = insert_files env (file # post) sp"
    by (simp only: insert_files_append pre prod.case outcome.case)
  then have loop: "insert_files env (json_files entries) ?s3 = (Rejected e, sp)"
    using stop files by simp
  have blk: "seed_try env s = (Rejected e, sp)"
    using seed_try_listing [OF connect dir, of s] loop files by (simp add: Let_def)
  let ?h = "emit ConsoleError (SeedingError e) sp"
  have fin: "seedSlides env s = connection_close env ?h"
    by (rule seedSlides_rejected_try [OF blk])
  from insert_files_resolved [OF pre] obtain new where
    new: "slides sp = slides s @ new" "map (Inr \<circ> content) new = map (read_slide env) pre"
    and con: "console sp = console ?s3 @ map (\<lambda>f. (ConsoleLog, Inserted f)) pre"
    by (auto simp: emit_def)
  from insert_files_frame [OF pre] have fr: "close_calls sp = close_calls s"
    by (simp add: emit_def)
  have 1: "\<exists>new. slides (snd (seedSlides env s)) = slides s @ new \<and>
      map (Inr \<circ> content) new = map (read_slide env) pre"
    using new connection_close_frame [of env ?h] fin by (auto simp: emit_def)
  have 2: "console (snd (seedSlides env s)) = console s @
           [(ConsoleLog, MongoConnected), (ConsoleLog, Found (length pre + 1 + length post))] @
           map (\<lambda>f. (ConsoleLog, Inserted f)) pre @
           [(ConsoleError, SeedingError e)]"
    using con connection_close_frame [of env ?h] fin files by (simp add: emit_def)
  have 3: "close_calls (snd (seedSlides env s)) = Suc (close_calls s)"
    using fr connection_close_frame [of env ?h] fin by (simp add: emit_def)
  have 4: "close_result env (close_calls s) = None \<longrightarrow>
      fst (seedSlides env s) = Resolved \<and> \<not> connected (snd (seedSlides env s))"
  proof
    assume "close_result env (close_calls s) = None"
    then have "close_result env (close_calls ?h) = None" using fr by (simp add: emit_def)
    from connection_close_ok [OF this]
    show "fst (seedSlides env s) = Resolved \<and> \<not> connected (snd (seedSlides env s))"
      using fin by simp
  qed
  from 1 2 3 4 show ?thesis by blast
qed

text \<open>
  Claim C2, witness: the second of three files breaks off; the first is persisted, the
  third is never touched.
\<close>

theorem seeder_aborts_at_first_failure_witness:
  "seedSlides (demo_env [''intro.json'', ''broken.json'', ''agenda.json'']) (new_process []) =
     (Resolved,
      \<lparr>slides = [\<lparr>slide_id = 1, content = intro_slide\<rparr>],
       connected = False, close_calls = 1,
       console = [(ConsoleLog, MongoConnected), (ConsoleLog, Found 3),
                  (ConsoleLog, Inserted ''intro.json''),
                  (ConsoleError, SeedingError (Error ''Unexpected end of JSON input''))]\<rparr>)"
proof -
  let ?E = "demo_env [''intro.json'', ''broken.json'', ''agenda.json'']"
  have connect: "connect_result ?E = None"
    by (simp add: demo_env_def)
  have dir: "readdirSync ?E (slidesDir ?E) = Inr [''intro.json'', ''broken.json'', ''agenda.json'']"
    by (simp add: demo_env_def)
  have files: "json_files [''intro.json'', ''broken.json'', ''agenda.json''] =
      [''intro.json''] @ ''broken.json'' # [''agenda.json'']"
    by (simp add: json_files_def endsWith_def)
  have pre_ok: "\<forall>f \<in> set [''intro.json''].
      \<exists>data. read_slide ?E f = Inr data \<and> create_fault ?E data = None"
    by (simp add: demo_read_intro) (simp add: demo_env_def)
  have fails: "read_slide ?E ''broken.json'' = Inl (Error ''Unexpected end of JSON input'') \<or>
      (\<exists>data. read_slide ?E ''broken.json'' = Inr data \<and>
         create_fault ?E data = Some (Error ''Unexpected end of JSON input''))"
    by (simp add: demo_read_broken)
  show ?thesis
    using seeder_aborts_at_first_failure [OF connect dir files pre_ok fails, of "new_process []"]
    by (simp add: seeder_defs demo_defs)
qed

text \<open>
  Claim C2, counterexample to the claim without the amendment: the same three files,
  with a closing call that fails. The second file breaks off, the handler reports the
  error and calls closing, that call throws: the connection is still open and
  \<open>seedSlides\<close> rejects.
\<close>

theorem seeder_abort_close_fails_counterexample:
  "json_files [''intro.json'', ''broken.json'', ''agenda.json''] =
     [''intro.json'', ''broken.json'', ''agenda.json''] \<and>
   read_slide
     (demo_env [''intro.json'', ''broken.json'', ''agenda.json'']
        \<lparr>close_result := (\<lambda>n. Some (Error ''close failed''))\<rparr>) ''broken.json'' =
     Inl (Error ''Unexpected end of JSON input'') \<and>
   seedSlides
     (demo_env [''intro.json'', ''broken.json'', ''agenda.json'']
        \<lparr>close_result := (\<lambda>n. Some (Error ''close failed''))\<rparr>) (new_process []) =
     (Rejected (Error ''close failed''),
      \<lparr>slides = [\<lparr>slide_id = 1, content = intro_slide\<rparr>],
       connected = True, close_calls = 1,
       console = [(ConsoleLog, MongoConnected), (ConsoleLog, Found 3),
                  (ConsoleLog, Inserted ''intro.json''),
                  (ConsoleError, SeedingError (Error ''Unexpected end of JSON input''))]\<rparr>) \<and>
   connected
     (snd (seedSlides
        (demo_env [''intro.json'', ''broken.json'', ''agenda.json'']
           \<lparr>close_result := (\<lambda>n. Some (Error ''close failed''))\<rparr>) (new_process [])))"
  by (simp add: seeder_defs demo_defs)

subsection \<open>C3: the seeder is not idempotent\<close>

text \<open>
  Claim C3, as amended. Two runs in succession in the same environment: the second run
  appends documents with the same contents as the first run appended, in the same
  order, under identifiers that are distinct and that no document held after the first
  run, so the collection grows by the same number twice. When the collection was
  empty before the first run, the count after the second run is double the count
  after the first. When every qualifying file is read, parsed and inserted without
  error, the documents appended again are the documents of the files.
\<close>

theorem seeder_twice:
  assumes first: "run_seeder env c0 = (r1, s1)"
    and second: "run_seeder env (slides s1) = (r2, s2)"
  shows "\<exists>new1 new2.
           slides s1 = c0 @ new1 \<and> slides s2 = slides s1 @ new2 \<and>
           map content new2 = map content new1 \<and>
           distinct (map slide_id new2) \<and>
           (\<forall>d \<in> set new2. \<forall>d0 \<in> set (slides s1). slide_id d \<noteq> slide_id d0) \<and>
           (c0 = [] \<longrightarrow> length (slides s2) = 2 * length (slides s1)) \<and>
           (connect_result env = None \<and> readdirSync env (slidesDir env) = Inr entries \<and>
            (\<forall>f \<in> set (json_files entries).
               \<exists>data. read_slide env f = Inr data \<and> create_fault env data = None) \<longrightarrow>
              map (Inr \<circ> content) new2 = map (read_slide env) (json_files entries))"
proof -
  let ?p0 = "\<lparr>slides = c0, connected = False, close_calls = 0, console = []\<rparr>"
  let ?p1 = "\<lparr>slides = slides s1, connected = False, close_calls = 0, console = []\<rparr>"
  from first have s1: "s1 = snd (seedSlides env ?p0)"
    by (simp add: run_seeder_def new_process_def)
  from second have s2: "s2 = snd (seedSlides env ?p1)"
    by (simp add: run_seeder_def new_process_def)
  obtain js where js: "\<And>s. \<exists>new. slides (snd (seedSlides env s)) = slides s @ new \<and>
      map content new = js \<and> distinct (map slide_id new) \<and>
      (\<forall>d \<in> set new. \<forall>d0 \<in> set (slides s). slide_id d0 < slide_id d)"
    using seedSlides_adds [of env] by blast
  from js [of ?p0] s1 obtain new1 where
    n1: "slides s1 = c0 @ new1" "map content new1 = js" by auto
  from js [of ?p1] s2 obtain new2 where
    n2: "slides s2 = slides s1 @ new2" "map content new2 = js" "distinct (map slide_id new2)"
      "\<forall>d \<in> set new2. \<forall>d0 \<in> set (slides s1). slide_id d0 < slide_id d" by auto
  have same: "map content new2 = map content new1" using n1 n2 by simp
  then have len: "length new2 = length new1" by (metis length_map)
  have fresh: "\<forall>d \<in> set new2. \<forall>d0 \<in> set (slides s1). slide_id d \<noteq> slide_id d0"
    using n2(4) by fastforce
  have double: "c0 = [] \<longrightarrow> length (slides s2) = 2 * length (slides s1)"
    using n1(1) n2(1) len by simp
  have each: "connect_result env = None \<and> readdirSync env (slidesDir env) = Inr entries \<and>
            (\<forall>f \<in> set (json_files entries).
               \<exists>data. read_slide env f = Inr data \<and> create_fault env data = None) \<longrightarrow>
              map (Inr \<circ> content) new2 = map (read_slide env) (json_files entries)"
  proof
    assume a: "connect_result env = None \<and> readdirSync env (slidesDir env) = Inr entries \<and>
            (\<forall>f \<in> set (json_files entries).
               \<exists>data. read_slide env f = Inr data \<and> create_fault env data = None)"
    then have "\<exists>new. slides (snd (seedSlides env ?p1)) = slides ?p1 @ new \<and>
           map (Inr \<circ> content) new = map (read_slide env) (json_files entries)"
      by (intro seedSlides_all_ok) auto
    with s2 n2(1) show "map (Inr \<circ> content) new2 = map (read_slide env) (json_files entries)"
      by auto
  qed
  from n1(1) n2(1) same n2(3) fresh double each show ?thesis by blast
qed

text \<open>Claim C3, witness: two runs over one file, from an empty collection.\<close>

theorem seeder_twice_witness:
  "slides (snd (run_seeder (demo_env [''intro.json'']) [])) =
     [\<lparr>slide_id = 1, content = intro_slide\<rparr>] \<and>
   slides (snd (run_seeder (demo_env [''intro.json''])
                  (slides (snd (run_seeder (demo_env [''intro.json'']) []))))) =
     [\<lparr>slide_id = 1, content = intro_slide\<rparr>, \<lparr>slide_id = 2, content = intro_slide\<rparr>]"
proof -
  let ?E = "demo_env [''intro.json'']"
  have first: "run_seeder ?E [] = (fst (run_seeder ?E []), snd (run_seeder ?E []))"
    by simp
  have second: "run_seeder ?E (slides (snd (run_seeder ?E []))) =
      (fst (run_seeder ?E (slides (snd (run_seeder ?E [])))),
       snd (run_seeder ?E (slides (snd (run_seeder ?E [])))))"
    by simp
  show ?thesis
    using seeder_twice [OF first second, of "[''intro.json'']"]
    by (simp add: seeder_defs demo_defs)
qed

text \<open>
  Claim C3, counterexample to the claim without the amendment: on a collection that
  holds two documents before the first run, the counts after the two runs over one
  file are 3 and 4, and 4 is not the double of 3.
\<close>

theorem seeder_twice_counterexample:
  "length (slides (snd (run_seeder (demo_env [''intro.json'']) demo_collection))) = 3 \<and>
   length (slides (snd (run_seeder (demo_env [''intro.json''])
        (slides (snd (run_seeder (demo_env [''intro.json'']) demo_collection)))))) = 4 \<and>
   length (slides (snd (run_seeder (demo_env [''intro.json''])
        (slides (snd (run_seeder (demo_env [''intro.json'']) demo_collection)))))) \<noteq>
     2 * length (slides (snd (run_seeder (demo_env [''intro.json'']) demo_collection)))"
  by (simp add: seeder_defs demo_defs)

subsection \<open>C4: an identifier of the list leads back to its document\<close>

text \<open>
  Claim C4. Let the identifiers of the collection be unique, let the List route have
  responded with status 200 and the sequence \<open>found\<close>, let \<open>d\<close> be one of its
  entries, and let the request path \<open>ident\<close> be read as the identifier of \<open>d\<close>. Then the
  Get-by-identifier route, on the collection the List request left, responds with
  status 200 and the document \<open>d\<close>.
\<close>

theorem get_by_id_round_trip:
  assumes "unique_ids c"
    and "get_slides drv c = (\<lparr>status = 200, body = SlideList found\<rparr>, c')"
    and "d \<in> set found"
    and "castObjectId drv ident = Inr (slide_id d)"
  shows "get_slide_by_id drv ident c' = (\<lparr>status = 200, body = SlideDoc d\<rparr>, c')"
proof -
  from assms(2) have ok: "query_fault drv = None" and "found = c" and "c' = c"
    by (auto simp: get_slides_def Slide_find_def split: option.splits)
  with assms find_unique [of c d] show ?thesis
    by (simp add: get_slide_by_id_def Slide_findById_def unique_ids_def)
qed

text \<open>Claim C4, witness: the second document of a collection of two.\<close>

theorem get_by_id_round_trip_witness:
  "get_slides demo_driver demo_collection =
     (\<lparr>status = 200, body = SlideList demo_collection\<rparr>, demo_collection) \<and>
   \<lparr>slide_id = 2, content = agenda_slide\<rparr> \<in> set demo_collection \<and>
   get_slide_by_id demo_driver ''000000000000000000000002'' demo_collection =
     (\<lparr>status = 200, body = SlideDoc \<lparr>slide_id = 2, content = agenda_slide\<rparr>\<rparr>, demo_collection)"
proof -
  have u: "unique_ids demo_collection"
    by (simp add: unique_ids_def demo_collection_def)
  have l: "get_slides demo_driver demo_collection =
     (\<lparr>status = 200, body = SlideList demo_collection\<rparr>, demo_collection)"
    by (simp add: get_slides_def Slide_find_def demo_driver_def)
  have d: "\<lparr>slide_id = 2, content = agenda_slide\<rparr> \<in> set demo_collection"
    by (simp add: demo_collection_def)
  have c: "castObjectId demo_driver ''000000000000000000000002'' =
      Inr (slide_id \<lparr>slide_id = 2, content = agenda_slide\<rparr>)"
    by (simp add: demo_driver_def hex24_def hex_digit_def)
  from get_by_id_round_trip [OF u l d c] l d show ?thesis by simp
qed

subsection \<open>C5: found, or 404\<close>

text \<open>
  Claim C5. Let the request path be read as the identifier \<open>oid\<close> and let the store
  answer the query. When no persisted document carries \<open>oid\<close>, the response is status
  404 with the body \<open>{message: "Slide not found"}\<close>, which holds no document. When a
  persisted document carries \<open>oid\<close>, the response is status 200 with such a document
  as its body.
\<close>

theorem get_by_id_found_or_404:
  assumes "castObjectId drv ident = Inr oid" and "query_fault drv = None"
  shows "((\<forall>d \<in> set c. slide_id d \<noteq> oid) \<longrightarrow>
           get_slide_by_id drv ident c =
             (\<lparr>status = 404, body = MessageBody ''Slide not found''\<rparr>, c)) \<and>
         ((\<exists>d \<in> set c. slide_id d = oid) \<longrightarrow>
           (\<exists>d \<in> set c. slide_id d = oid \<and>
              get_slide_by_id drv ident c = (\<lparr>status = 200, body = SlideDoc d\<rparr>, c)))"
proof (cases "find (\<lambda>d. slide_id d = oid) c")
  case None
  then have "\<forall>d \<in> set c. slide_id d \<noteq> oid" by (simp add: find_None_iff)
  with None assms show ?thesis
    by (simp add: get_slide_by_id_def Slide_findById_def)
next
  case (Some d)
  then have "d \<in> set c" "slide_id d = oid"
    by (auto simp: find_Some_iff)
  with Some assms show ?thesis
    by (auto simp: get_slide_by_id_def Slide_findById_def)
qed

text \<open>Claim C5, witness: an identifier that is absent, and one that is present.\<close>

theorem get_by_id_found_or_404_witness:
  "get_slide_by_id demo_driver ''00000000000000000000000c'' demo_collection =
     (\<lparr>status = 404, body = MessageBody ''Slide not found''\<rparr>, demo_collection) \<and>
   get_slide_by_id demo_driver ''000000000000000000000001'' demo_collection =
     (\<lparr>status = 200, body = SlideDoc \<lparr>slide_id = 1, content = intro_slide\<rparr>\<rparr>, demo_collection)"
proof -
  have up: "query_fault demo_driver = None"
    by (simp add: demo_driver_def)
  have c12: "castObjectId demo_driver ''00000000000000000000000c'' = Inr 12"
    by (simp add: demo_driver_def hex24_def hex_digit_def)
  have c1: "castObjectId demo_driver ''000000000000000000000001'' = Inr 1"
    by (simp add: demo_driver_def hex24_def hex_digit_def)
  have absent: "\<forall>d \<in> set demo_collection. slide_id d \<noteq> 12"
    by (simp add: demo_collection_def)
  have present: "\<exists>d \<in> set demo_collection. slide_id d = 1"
    by (simp add: demo_collection_def)
  from get_by_id_found_or_404 [OF c12 up, of demo_collection] absent
  have a: "get_slide_by_id demo_driver ''00000000000000000000000c'' demo_collection =
     (\<lparr>status = 404, body = MessageBody ''Slide not found''\<rparr>, demo_collection)"
    by blast
  from get_by_id_found_or_404 [OF c1 up, of demo_collection] present
  obtain d where "d \<in> set demo_collection" "slide_id d = 1"
    "get_slide_by_id demo_driver ''000000000000000000000001'' demo_collection =
       (\<lparr>status = 200, body = SlideDoc d\<rparr>, demo_collection)"
    by blast
  then have b: "get_slide_by_id demo_driver ''000000000000000000000001'' demo_collection =
     (\<lparr>status = 200, body = SlideDoc \<lparr>slide_id = 1, content = intro_slide\<rparr>\<rparr>, demo_collection)"
    by (auto simp: demo_collection_def)
  from a b show ?thesis by simp
qed

subsection \<open>C6: a directory without slide files\<close>

text \<open>
  Claim C6, as amended. When the connection is made and the directory listing holds no
  entry ending in \<open>.json\<close>, the run resolves; the collection is unchanged; closing the
  connection is not called and the connection stays open; and the console receives
  three lines: the two informational messages of every run (connected, and the count
  0) and then the warning. The warning is the only line written at warning or error
  level, and there is no insertion, success or error message.
\<close>

theorem seeder_no_json_files:
  assumes "connect_result env = None"
    and "readdirSync env (slidesDir env) = Inr entries"
    and "json_files entries = []"
  shows "seedSlides env s =
     (Resolved,
      s\<lparr>connected := True,
        console := console s @
          [(ConsoleLog, MongoConnected), (ConsoleLog, Found 0), (ConsoleWarn, NoJsonFiles)]\<rparr>)"
  using assms seed_try_listing [OF assms(1,2), of s]
  by (simp add: seedSlides_def emit_def)

text \<open>Claim C6, witness: a directory holding a text file and a file ending in \<open>.JSON\<close>.\<close>

theorem seeder_no_json_files_witness:
  "json_files [''notes.txt'', ''deck.JSON''] = [] \<and>
   seedSlides (demo_env [''notes.txt'', ''deck.JSON'']) (new_process demo_collection) =
     (Resolved,
      \<lparr>slides = demo_collection, connected = True, close_calls = 0,
       console = [(ConsoleLog, MongoConnected), (ConsoleLog, Found 0),
                  (ConsoleWarn, NoJsonFiles)]\<rparr>)"
proof -
  let ?E = "demo_env [''notes.txt'', ''deck.JSON'']"
  have connect: "connect_result ?E = None"
    by (simp add: demo_env_def)
  have dir: "readdirSync ?E (slidesDir ?E) = Inr [''notes.txt'', ''deck.JSON'']"
    by (simp add: demo_env_def)
  have none: "json_files [''notes.txt'', ''deck.JSON''] = []"
    by (simp add: json_files_def endsWith_def)
  from seeder_no_json_files [OF connect dir none, of "new_process demo_collection"] none
  show ?thesis by (simp add: new_process_def)
qed

text \<open>
  Claim C6, counterexample to the claim without the amendment: in that run the warning
  is the third line of the console, not the only one.
\<close>

theorem seeder_no_json_files_counterexample:
  "json_files [''notes.txt'', ''deck.JSON''] = [] \<and>
   fst (run_seeder (demo_env [''notes.txt'', ''deck.JSON'']) []) = Resolved \<and>
   console (snd (run_seeder (demo_env [''notes.txt'', ''deck.JSON'']) [])) =
     [(ConsoleLog, MongoConnected), (ConsoleLog, Found 0), (ConsoleWarn, NoJsonFiles)] \<and>
   console (snd (run_seeder (demo_env [''notes.txt'', ''deck.JSON'']) [])) \<noteq>
     [(ConsoleWarn, NoJsonFiles)]"
  by (simp add: seeder_defs demo_defs)

subsection \<open>C7: a malformed identifier is a 500\<close>

text \<open>
  Claim C7. When the request path does not have the identifier format of the store
  (reading it throws \<open>err\<close>), the response is status 500 with the body
  \<open>{error: message}\<close> of that error, whatever the state of the store. It is the
  response a well-formed identifier gets when the store rejects the query with \<open>err\<close>:
  the two cases share the status and the shape of the body, no 4xx status sets them
  apart.
\<close>

theorem malformed_identifier_is_500:
  "(castObjectId drv ident = Inl err \<longrightarrow>
      get_slide_by_id drv ident c = (\<lparr>status = 500, body = ErrorBody (message err)\<rparr>, c)) \<and>
   (castObjectId drv ident = Inr oid \<longrightarrow> query_fault drv = Some err \<longrightarrow>
      get_slide_by_id drv ident c = (\<lparr>status = 500, body = ErrorBody (message err)\<rparr>, c))"
  by (simp add: get_slide_by_id_def Slide_findById_def)

text \<open>Claim C7, witness: a path that is no identifier, and a store that does not answer.\<close>

theorem malformed_identifier_is_500_witness:
  "get_slide_by_id demo_driver ''not-an-id'' demo_collection =
     (\<lparr>status = 500, body = ErrorBody ''Cast to ObjectId failed''\<rparr>, demo_collection) \<and>
   get_slide_by_id (demo_driver\<lparr>query_fault := Some (Error ''connection timed out'')\<rparr>)
       ''000000000000000000000001'' demo_collection =
     (\<lparr>status = 500, body = ErrorBody ''connection timed out''\<rparr>, demo_collection)"
proof -
  let ?down = "demo_driver\<lparr>query_fault := Some (Error ''connection timed out'')\<rparr>"
  have bad: "castObjectId demo_driver ''not-an-id'' = Inl (Error ''Cast to ObjectId failed'')"
    by (simp add: demo_driver_def hex24_def)
  have good: "castObjectId ?down ''000000000000000000000001'' = Inr 1"
    by (simp add: demo_driver_def hex24_def hex_digit_def)
  have fault: "query_fault ?down = Some (Error ''connection timed out'')"
    by simp
  from malformed_identifier_is_500
         [of demo_driver "''not-an-id''" "Error ''Cast to ObjectId failed''" demo_collection] bad
    malformed_identifier_is_500
         [of ?down "''000000000000000000000001''" "Error ''connection timed out''"
             demo_collection 1] good fault
  show ?thesis by simp
qed

subsection \<open>C8: the routes only read\<close>

text \<open>
  Claim C8. Whatever the request and whatever the response (200, 404 or 500), the
  collection after a List request and after a Get-by-identifier request is the
  collection before it.
\<close>

theorem query_routes_read_only:
  "snd (get_slides drv c) = c \<and> snd (get_slide_by_id drv ident c) = c"
  by (simp add: get_slides_def get_slide_by_id_def Slide_find_def Slide_findById_def
      split: option.splits sum.splits)

subsection \<open>C9: the filter is an exact suffix test\<close>

text \<open>
  Claim C9. The files the seeder selects are the directory entries whose name is some
  text followed by exactly \<open>.json\<close>, in directory order. An entry that ends in any
  other five characters (as \<open>.JSON\<close> or \<open>.Json\<close>) is not selected. In a run in which
  the connection is made and every selected file is processed without error, an
  insertion is logged for an entry if and only if the entry ends in \<open>.json\<close>: the
  other entries leave no trace.
\<close>

theorem json_files_exact_suffix:
  "json_files entries = filter (\<lambda>f. \<exists>stem. f = stem @ ''.json'') entries \<and>
   (length suffix = 5 \<longrightarrow> suffix \<noteq> ''.json'' \<longrightarrow> stem @ suffix \<notin> set (json_files entries)) \<and>
   (connect_result env = None \<longrightarrow> readdirSync env (slidesDir env) = Inr entries \<longrightarrow>
    (\<forall>f \<in> set (json_files entries).
       \<exists>data. read_slide env f = Inr data \<and> create_fault env data = None) \<longrightarrow>
    (\<forall>f. (ConsoleLog, Inserted f) \<in> set (console (snd (run_seeder env c))) \<longleftrightarrow>
         f \<in> set entries \<and> (\<exists>stem. f = stem @ ''.json'')))"
proof (intro conjI impI)
  show flt: "json_files entries = filter (\<lambda>f. \<exists>stem. f = stem @ ''.json'') entries"
    by (simp add: json_files_def endsWith_iff)
  {
    assume "length suffix = 5" and "suffix \<noteq> ''.json''"
    then have "\<not> endsWith (stem @ suffix) ''.json''"
      by (auto simp: endsWith_iff)
    then show "stem @ suffix \<notin> set (json_files entries)"
      by (simp add: json_files_def)
  }
  {
    assume connect: "connect_result env = None"
      and dir: "readdirSync env (slidesDir env) = Inr entries"
      and ok: "\<forall>f \<in> set (json_files entries).
         \<exists>data. read_slide env f = Inr data \<and> create_fault env data = None"
    let ?s0 = "\<lparr>slides = c, connected = False, close_calls = 0, console = []\<rparr>"
    from seedSlides_console_all_ok [OF connect dir ok, of ?s0] obtain rest where
      "console (snd (run_seeder env c)) =
         [(ConsoleLog, MongoConnected), (ConsoleLog, Found (length (json_files entries)))] @
         map (\<lambda>f. (ConsoleLog, Inserted f)) (json_files entries) @ rest"
      and "\<forall>f. (ConsoleLog, Inserted f) \<notin> set rest"
      by (auto simp: run_seeder_def new_process_def)
    then have "\<forall>f. (ConsoleLog, Inserted f) \<in> set (console (snd (run_seeder env c))) \<longleftrightarrow>
         f \<in> set (json_files entries)"
      by auto
    then show "\<forall>f. (ConsoleLog, Inserted f) \<in> set (console (snd (run_seeder env c))) \<longleftrightarrow>
         f \<in> set entries \<and> (\<exists>stem. f = stem @ ''.json'')"
      by (simp add: flt)
  }
qed

text \<open>Claim C9, witness: entries in several casings.\<close>

theorem json_files_exact_suffix_witness:
  "json_files [''intro.json'', ''deck.JSON'', ''notes.txt'', ''agenda.json'', ''json''] =
     [''intro.json'', ''agenda.json''] \<and>
   ''deck.JSON'' \<notin> set (json_files [''intro.json'', ''deck.JSON'']) \<and>
   (ConsoleLog, Inserted ''intro.json'') \<in>
     set (console (snd (run_seeder (demo_env [''intro.json'', ''deck.JSON'']) []))) \<and>
   (ConsoleLog, Inserted ''deck.JSON'') \<notin>
     set (console (snd (run_seeder (demo_env [''intro.json'', ''deck.JSON'']) [])))"
proof -
  let ?E = "demo_env [''intro.json'', ''deck.JSON'']"
  have connect: "connect_result ?E = None"
    by (simp add: demo_env_def)
  have dir: "readdirSync ?E (slidesDir ?E) = Inr [''intro.json'', ''deck.JSON'']"
    by (simp add: demo_env_def)
  have files: "json_files [''intro.json'', ''deck.JSON''] = [''intro.json'']"
    by (simp add: json_files_def endsWith_def)
  have ok: "\<forall>f \<in> set (json_files [''intro.json'', ''deck.JSON'']).
      \<exists>data. read_slide ?E f = Inr data \<and> create_fault ?E data = None"
    by (simp add: files demo_read_intro) (simp add: demo_env_def)
  have len: "length ''.JSON'' = 5" and ne: "''.JSON'' \<noteq> ''.json''"
    by simp_all
  from json_files_exact_suffix
         [of "[''intro.json'', ''deck.JSON'']" "''.JSON''" "''deck''" ?E "[]"]
       connect dir ok len ne
  have "''deck.JSON'' \<notin> set (json_files [''intro.json'', ''deck.JSON''])"
    and "\<forall>f. (ConsoleLog, Inserted f) \<in> set (console (snd (run_seeder ?E []))) \<longleftrightarrow>
           f \<in> set [''intro.json'', ''deck.JSON''] \<and> (\<exists>stem. f = stem @ ''.json'')"
    by simp_all
  moreover have "\<exists>stem. ''intro.json'' = stem @ ''.json''"
    by (rule exI [of _ "''intro''"]) simp
  moreover have "\<not> (\<exists>stem. ''deck.JSON'' = stem @ ''.json'')"
    by (auto simp: append_eq_Cons_conv)
  moreover have "json_files [''intro.json'', ''deck.JSON'', ''notes.txt'', ''agenda.json'', ''json''] =
     [''intro.json'', ''agenda.json'']"
    by (simp add: json_files_def endsWith_def)
  ultimately show ?thesis by simp
qed

subsection \<open>C10: one handler for every error\<close>

text \<open>
  Claim C10. A failure to connect makes the block throw at once, in the state it
  started in. Whenever the block throws an error \<open>e\<close>, the handler reports \<open>e\<close> on the
  console and calls closing the connection; when that call does not fail, \<open>seedSlides\<close>
  resolves with the connection closed. \<open>seedSlides\<close> rejects only when the block has
  thrown and the closing call of the handler itself fails, and then with the error
  of that call.
\<close>

theorem seedSlides_catches_every_error:
  "(connect_result env = Some e0 \<longrightarrow> seed_try env s = (Rejected e0, s)) \<and>
   (seed_try env s = (Rejected e, s1) \<longrightarrow>
      console (snd (seedSlides env s)) = console s1 @ [(ConsoleError, SeedingError e)] \<and>
      close_calls (snd (seedSlides env s)) = Suc (close_calls s1) \<and>
      (close_result env (close_calls s1) = None \<longrightarrow>
         fst (seedSlides env s) = Resolved \<and> \<not> connected (snd (seedSlides env s)))) \<and>
   (fst (seedSlides env s) = Rejected e' \<longrightarrow>
      (\<exists>e s1. seed_try env s = (Rejected e, s1) \<and> close_result env (close_calls s1) = Some e'))"
proof (intro conjI impI)
  assume "connect_result env = Some e0"
  then show "seed_try env s = (Rejected e0, s)" by (rule seed_try_connect_fails)
next
  assume t: "seed_try env s = (Rejected e, s1)"
  let ?h = "emit ConsoleError (SeedingError e) s1"
  from connection_close_frame [of env ?h]
  show "console (snd (seedSlides env s)) = console s1 @ [(ConsoleError, SeedingError e)]"
    and "close_calls (snd (seedSlides env s)) = Suc (close_calls s1)"
    by (simp_all add: seedSlides_rejected_try [OF t] emit_def)
  assume "close_result env (close_calls s1) = None"
  then have "close_result env (close_calls ?h) = None" by (simp add: emit_def)
  from connection_close_ok [OF this]
  show "fst (seedSlides env s) = Resolved" and "\<not> connected (snd (seedSlides env s))"
    by (simp_all add: seedSlides_rejected_try [OF t])
next
  assume r: "fst (seedSlides env s) = Rejected e'"
  show "\<exists>e s1. seed_try env s = (Rejected e, s1) \<and> close_result env (close_calls s1) = Some e'"
  proof (cases "seed_try env s" rule: outcome_pair_cases)
    case (1 s1)
    with r show ?thesis by (simp add: seedSlides_resolved_try)
  next
    case (2 e s1)
    with r have "fst (connection_close env (emit ConsoleError (SeedingError e) s1)) = Rejected e'"
      by (simp add: seedSlides_rejected_try)
    from connection_close_rejected [OF this] 2 show ?thesis
      by (simp add: emit_def)
  qed
qed

text \<open>
  Claim C10, witness: a refused connection, with a closing call that succeeds and with
  one that fails.
\<close>

theorem seedSlides_catches_every_error_witness:
  "seed_try (demo_env [''intro.json'']\<lparr>connect_result := Some (Error ''ECONNREFUSED'')\<rparr>)
       (new_process []) =
     (Rejected (Error ''ECONNREFUSED''), new_process []) \<and>
   seedSlides (demo_env [''intro.json'']\<lparr>connect_result := Some (Error ''ECONNREFUSED'')\<rparr>)
       (new_process []) =
     (Resolved,
      \<lparr>slides = [], connected = False, close_calls = 1,
       console = [(ConsoleError, SeedingError (Error ''ECONNREFUSED''))]\<rparr>) \<and>
   fst (seedSlides
          (demo_env [''intro.json'']
             \<lparr>connect_result := Some (Error ''ECONNREFUSED''),
              close_result := (\<lambda>n. Some (Error ''close failed''))\<rparr>)
          (new_process [])) = Rejected (Error ''close failed'') \<and>
   close_result
     (demo_env [''intro.json'']
        \<lparr>connect_result := Some (Error ''ECONNREFUSED''),
         close_result := (\<lambda>n. Some (Error ''close failed''))\<rparr>) 0 =
     Some (Error ''close failed'')"
proof -
  let ?E = "demo_env [''intro.json'']\<lparr>connect_result := Some (Error ''ECONNREFUSED'')\<rparr>"
  let ?F = "demo_env [''intro.json'']
             \<lparr>connect_result := Some (Error ''ECONNREFUSED''),
              close_result := (\<lambda>n. Some (Error ''close failed''))\<rparr>"
  have refused: "connect_result ?E = Some (Error ''ECONNREFUSED'')"
    by simp
  have closes: "close_result ?E (close_calls (new_process [])) = None"
    by (simp add: demo_env_def)
  have rej: "fst (seedSlides ?F (new_process [])) = Rejected (Error ''close failed'')"
    by (simp add: seeder_defs demo_defs)
  note at_E = seedSlides_catches_every_error
         [of ?E "Error ''ECONNREFUSED''" "new_process []" "Error ''ECONNREFUSED''"
             "new_process []" "Error ''close failed''"]
  note at_F = seedSlides_catches_every_error
         [of ?F "Error ''ECONNREFUSED''" "new_process []" "Error ''ECONNREFUSED''"
             "new_process []" "Error ''close failed''"]
  from at_E refused
  have blk: "seed_try ?E (new_process []) = (Rejected (Error ''ECONNREFUSED''), new_process [])"
    by blast
  from at_E blk closes
  have res: "fst (seedSlides ?E (new_process [])) = Resolved"
    by blast
  from at_F rej
  have "\<exists>e s1. seed_try ?F (new_process []) = (Rejected e, s1) \<and>
          close_result ?F (close_calls s1) = Some (Error ''close failed'')"
    by blast
  have run: "seedSlides ?E (new_process []) =
     (Resolved,
      \<lparr>slides = [], connected = False, close_calls = 1,
       console = [(ConsoleError, SeedingError (Error ''ECONNREFUSED''))]\<rparr>)"
    by (simp add: seeder_defs demo_defs)
  from blk run rej show ?thesis
    by simp
qed

end
